theory Spec2Isabelle
  imports Complex_Main
begin

section \<open>NetBox API authentication: netbox/api/authentication.py\<close>

text \<open>
  The module holds three classes: \<open>TokenAuthentication\<close> (resolving a presented key to
  a user and a token), \<open>TokenPermissions\<close> (the write gate in front of the framework's
  capability check) and \<open>IsAuthenticatedOrLoginNotRequired\<close>. Everything the Python
  does beyond returning a value is explicit here: the token table, the wall clock, the
  log and the directory service are fields of a \<open>world\<close> that every call takes and
  returns; every \<open>raise\<close> is an \<open>Inl\<close>.
\<close>

subsection \<open>Time\<close>

text \<open>
  A Python \<open>datetime\<close> has microsecond resolution: an instant is a count of
  microseconds since the epoch, and the difference of two instants (a \<open>timedelta\<close>) a
  count of microseconds. \<open>timedelta.total_seconds()\<close> divides that count by \<open>10**6\<close>.
\<close>

type_synonym instant = int
type_synonym timedelta = int

definition total_seconds :: "timedelta \<Rightarrow> rat" where
  "total_seconds d = of_int d / 1000000"

subsection \<open>Data\<close>

text \<open>A user account, with the attributes the module reads.\<close>

record user =
  username :: string
  is_active :: bool
  is_authenticated :: bool

text \<open>A row of the \<open>Token\<close> model, with its owning user prefetched.\<close>

record token =
  key :: string
  user :: user
  expires :: "instant option"
  last_used :: "instant option"
  write_enabled :: bool

text \<open>The exceptions the module raises or lets escape.\<close>

datatype exn =
  AuthenticationFailed string
  | AttributeError string

text \<open>\<open>django.conf.settings\<close> and \<open>netbox.config.get_config()\<close>, as far as they are read.\<close>

record settings =
  LOGIN_REQUIRED :: bool
  REMOTE_AUTH_BACKEND :: string

record config =
  MAINTENANCE_MODE :: bool

text \<open>\<open>LDAPBackend().settings\<close>.\<close>

record ldap_settings =
  FIND_GROUP_PERMS :: bool

text \<open>
  The state a call to \<open>authenticate_credentials\<close> reads and writes.
  \<^item> \<open>tokens\<close> is the Token table, indexed by its unique \<open>key\<close> column.
  \<^item> \<open>clock\<close> and \<open>ticks\<close> are the wall clock: the \<open>n\<close>-th call of \<open>timezone.now()\<close>
    returns \<open>clock n\<close>, and \<open>ticks\<close> counts the calls made so far. Nothing is assumed
    about the readings.
  \<^item> \<open>warnings\<close> is what was logged at warning level on \<open>netbox.auth.login\<close>.
  \<^item> \<open>directory\<close> is what \<open>LDAPBackend.populate_user\<close> answers for a username, and
    \<open>populate_calls\<close> the usernames it has been asked for, in order.
\<close>

record world =
  tokens :: "string \<rightharpoonup> token"
  clock :: "nat \<Rightarrow> instant"
  ticks :: nat
  django_settings :: settings
  get_config :: config
  ldap_backend_settings :: ldap_settings
  warnings :: "string list"
  directory :: "string \<rightharpoonup> user"
  populate_calls :: "string list"

subsection \<open>Collaborators of \<open>authenticate_credentials\<close>\<close>

text \<open>\<open>timezone.now()\<close>: reads the clock; the next call gets the next reading.\<close>

definition timezone_now :: "world \<Rightarrow> instant \<times> world" where
  "timezone_now w = (clock w (ticks w), w\<lparr>ticks := Suc (ticks w)\<rparr>)"

text \<open>
  \<open>token.save()\<close>: writes the in-memory row back over the row that
  \<open>get(key=key)\<close> loaded it from.
\<close>

definition save :: "string \<Rightarrow> token \<Rightarrow> world \<Rightarrow> world" where
  "save k t w = w\<lparr>tokens := (tokens w)(k \<mapsto> t)\<rparr>"

text \<open>\<open>logger.warning(msg)\<close>.\<close>

definition logger_warning :: "string \<Rightarrow> world \<Rightarrow> world" where
  "logger_warning msg w = w\<lparr>warnings := warnings w @ [msg]\<rparr>"

text \<open>
  Modelled from the spec: \<open>Token.is_expired\<close> is a property of the \<open>Token\<close> model in
  \<open>users.models\<close>, which is not part of the source at hand. The spec: a token whose
  expiration instant is set and is in the past is expired. The property looks at the
  clock when an expiration instant is set.
\<close>

definition is_expired :: "token \<Rightarrow> world \<Rightarrow> bool \<times> world" where
  "is_expired t w =
     (case expires t of
        None \<Rightarrow> (False, w)
      | Some e \<Rightarrow> (let (now, w') = timezone_now w in (e < now, w')))"

text \<open>
  \<open>LDAPBackend.populate_user(username)\<close>: one round-trip to the directory service,
  answering a user or \<open>None\<close>.
\<close>

definition populate_user :: "string \<Rightarrow> world \<Rightarrow> user option \<times> world" where
  "populate_user name w = (directory w name, w\<lparr>populate_calls := populate_calls w @ [name]\<rparr>)"

subsection \<open>\<open>TokenAuthentication.authenticate_credentials\<close>\<close>

text \<open>
  Lines 25 to 34: the refresh of \<open>last_used\<close>. \<open>not token.last_used\<close> holds exactly when
  the field is \<open>None\<close> (a datetime is never falsy), and then the clock is not read for
  the comparison. The result is the in-memory token and the world.
\<close>

definition update_last_used :: "string \<Rightarrow> token \<Rightarrow> world \<Rightarrow> token \<times> world" where
  "update_last_used k t w =
     (let (stale, w1) =
            (case last_used t of
               None \<Rightarrow> (True, w)
             | Some lu \<Rightarrow> (let (now, w') = timezone_now w in (total_seconds (now - lu) > 6, w')))
      in if stale then
           if MAINTENANCE_MODE (get_config w1) then
             (t, logger_warning ''Maintenance mode enabled: disabling update of token's last used timestamp'' w1)
           else
             (let (now, w2) = timezone_now w1;
                  t' = t\<lparr>last_used := Some now\<rparr>
              in (t', save k t' w2))
         else (t, w1))"

text \<open>
  Lines 43 to 55: the directory override and the return. A user object is always
  truthy, so \<open>if user\<close> asks whether \<open>populate_user\<close> answered a user.
\<close>

definition resolve_user :: "token \<Rightarrow> world \<Rightarrow> (exn + user \<times> token) \<times> world" where
  "resolve_user t w =
     (if REMOTE_AUTH_BACKEND (django_settings w) = ''netbox.authentication.LDAPBackend'' then
        if FIND_GROUP_PERMS (ldap_backend_settings w) then
          (let (found, w') = populate_user (username (token.user t)) w
           in case found of
                Some u \<Rightarrow> (Inr (u, t), w')
              | None \<Rightarrow> (Inr (token.user t, t), w'))
        else (Inr (token.user t, t), w)
      else (Inr (token.user t, t), w))"

text \<open>The method as a whole (lines 18 to 55).\<close>

definition authenticate_credentials :: "world \<Rightarrow> string \<Rightarrow> (exn + user \<times> token) \<times> world" where
  "authenticate_credentials w k =
     (case tokens w k of
        None \<Rightarrow> (Inl (AuthenticationFailed ''Invalid token''), w)
      | Some t0 \<Rightarrow>
          (let (t, w1) = update_last_used k t0 w;
               (expired, w2) = is_expired t w1
           in if expired then (Inl (AuthenticationFailed ''Token expired''), w2)
              else if \<not> is_active (token.user t) then (Inl (AuthenticationFailed ''User inactive''), w2)
              else resolve_user t w2))"

subsection \<open>\<open>TokenPermissions\<close>\<close>

text \<open>
  A request, with the attributes the module reads. \<open>request.auth\<close> is a \<open>Token\<close> instance after token authentication, and something else
  (\<open>None\<close> under session authentication) otherwise; that something has no attribute
  \<open>write_enabled\<close>.
\<close>

datatype credential =
  Token token
  | NotAToken

record request =
  "method" :: string
  auth :: credential
  user :: user

text \<open>\<open>rest_framework.permissions.SAFE_METHODS\<close>.\<close>

definition SAFE_METHODS :: "string list" where
  "SAFE_METHODS = [''GET'', ''HEAD'', ''OPTIONS'']"

text \<open>\<open>isinstance(request.auth, Token)\<close>.\<close>

fun isinstance_Token :: "credential \<Rightarrow> bool" where
  "isinstance_Token (Token t) = True"
| "isinstance_Token NotAToken = False"

text \<open>
  What a Python function hands back when its body is \<open>if c: return True\<close> and nothing
  else: \<open>True\<close>, or \<open>None\<close> by falling off the end. \<open>truthy\<close> is what \<open>not\<close> and \<open>if\<close>
  make of it.
\<close>

datatype pyval =
  PyBool bool
  | PyNone

fun truthy :: "pyval \<Rightarrow> bool" where
  "truthy (PyBool b) = b"
| "truthy PyNone = False"

text \<open>
  \<open>_verify_write_permission\<close> (lines 81 to 85). \<open>or\<close> evaluates its right operand only
  when the method is not safe; reading \<open>write_enabled\<close> from a credential that is not a
  token raises \<open>AttributeError\<close>.
\<close>

definition verify_write_permission :: "request \<Rightarrow> exn + pyval" where
  "verify_write_permission req =
     (if method req \<in> set SAFE_METHODS then Inr (PyBool True)
      else case auth req of
             Token t \<Rightarrow> if write_enabled t then Inr (PyBool True) else Inr PyNone
           | NotAToken \<Rightarrow> Inl (AttributeError ''write_enabled''))"

text \<open>
  The base capability checks, \<open>super().has_permission\<close> and
  \<open>super().has_object_permission\<close> of \<open>DjangoObjectPermissions\<close>, are parameters: any
  function from their arguments to a boolean or an exception. Every invocation of
  either is appended to a log, so that a check that was never made can be told from
  one that was.
\<close>

datatype ('v, 'o) base_call =
  Base_has_permission request 'v
  | Base_has_object_permission request 'v 'o

definition super_has_permission ::
  "(request \<Rightarrow> 'v \<Rightarrow> exn + bool) \<Rightarrow> request \<Rightarrow> 'v \<Rightarrow> ('v, 'o) base_call list
     \<Rightarrow> (exn + bool) \<times> ('v, 'o) base_call list" where
  "super_has_permission base req view calls =
     (base req view, calls @ [Base_has_permission req view])"

definition super_has_object_permission ::
  "(request \<Rightarrow> 'v \<Rightarrow> 'o \<Rightarrow> exn + bool) \<Rightarrow> request \<Rightarrow> 'v \<Rightarrow> 'o \<Rightarrow> ('v, 'o) base_call list
     \<Rightarrow> (exn + bool) \<times> ('v, 'o) base_call list" where
  "super_has_object_permission base req view obj calls =
     (base req view obj, calls @ [Base_has_object_permission req view obj])"

text \<open>\<open>TokenPermissions.has_permission\<close> (lines 87 to 93).\<close>

definition has_permission ::
  "(request \<Rightarrow> 'v \<Rightarrow> exn + bool) \<Rightarrow> request \<Rightarrow> 'v \<Rightarrow> ('v, 'o) base_call list
     \<Rightarrow> (exn + bool) \<times> ('v, 'o) base_call list" where
  "has_permission base req view calls =
     (if isinstance_Token (auth req) then
        (case verify_write_permission req of
           Inl e \<Rightarrow> (Inl e, calls)
         | Inr v \<Rightarrow>
             if \<not> truthy v then (Inr False, calls)
             else super_has_permission base req view calls)
      else super_has_permission base req view calls)"

text \<open>\<open>TokenPermissions.has_object_permission\<close> (lines 95 to 101).\<close>

definition has_object_permission ::
  "(request \<Rightarrow> 'v \<Rightarrow> 'o \<Rightarrow> exn + bool) \<Rightarrow> request \<Rightarrow> 'v \<Rightarrow> 'o \<Rightarrow> ('v, 'o) base_call list
     \<Rightarrow> (exn + bool) \<times> ('v, 'o) base_call list" where
  "has_object_permission base req view obj calls =
     (if isinstance_Token (auth req) then
        (case verify_write_permission req of
           Inl e \<Rightarrow> (Inl e, calls)
         | Inr v \<Rightarrow>
             if \<not> truthy v then (Inr False, calls)
             else super_has_object_permission base req view obj calls)
      else super_has_object_permission base req view obj calls)"

subsection \<open>\<open>IsAuthenticatedOrLoginNotRequired\<close>\<close>

text \<open>\<open>IsAuthenticatedOrLoginNotRequired.has_permission\<close> (lines 108 to 111).\<close>

definition IsAuthenticatedOrLoginNotRequired_has_permission ::
  "settings \<Rightarrow> request \<Rightarrow> 'v \<Rightarrow> bool" where
  "IsAuthenticatedOrLoginNotRequired_has_permission s req view =
     (if \<not> LOGIN_REQUIRED s then True
      else is_authenticated (request.user req))"

subsection \<open>A small site, for concrete runs\<close>

text \<open>
  One local account, its entry in the directory (which the directory knows under a
  different spelling, so that the two can be told apart), an anonymous caller, and the
  token \<open>abc123\<close> of the account: never used, no expiration, not write-enabled.
\<close>

definition alice :: user where
  "alice = \<lparr>username = ''alice'', is_active = True, is_authenticated = True\<rparr>"

definition directory_alice :: user where
  "directory_alice = \<lparr>username = ''Alice'', is_active = True, is_authenticated = True\<rparr>"

definition anonymous :: user where
  "anonymous = \<lparr>username = '''', is_active = False, is_authenticated = False\<rparr>"

definition abc123 :: token where
  "abc123 = \<lparr>key = ''abc123'', user = alice, expires = None, last_used = None,
     write_enabled = False\<rparr>"

text \<open>An instant, in microseconds, and one second.\<close>

definition noon :: instant where
  "noon = 1700000000000000"

definition second :: timedelta where
  "second = 1000000"

text \<open>A clock whose first reading is \<open>t\<close> and whose later readings are all \<open>t + d\<close>.\<close>

definition clock_then :: "instant \<Rightarrow> timedelta \<Rightarrow> nat \<Rightarrow> instant" where
  "clock_then t d n = (case n of 0 \<Rightarrow> t | Suc m \<Rightarrow> t + d)"

text \<open>
  The site: the token table holds \<open>abc123\<close>, the first clock reading is \<open>noon\<close> and
  every later one seven seconds after it, maintenance mode is off, and the directory
  override is configured and knows the account.
\<close>

definition site :: world where
  "site = \<lparr>tokens = [''abc123'' \<mapsto> abc123],
     clock = clock_then noon (7 * second),
     ticks = 0,
     django_settings = \<lparr>LOGIN_REQUIRED = True,
       REMOTE_AUTH_BACKEND = ''netbox.authentication.LDAPBackend''\<rparr>,
     get_config = \<lparr>MAINTENANCE_MODE = False\<rparr>,
     ldap_backend_settings = \<lparr>FIND_GROUP_PERMS = True\<rparr>,
     warnings = [],
     directory = [''alice'' \<mapsto> directory_alice],
     populate_calls = []\<rparr>"

text \<open>The same site with the token's expiration one second before \<open>noon\<close>.\<close>

definition expired_site :: world where
  "expired_site = site\<lparr>tokens := [''abc123'' \<mapsto> abc123\<lparr>expires := Some (noon - second)\<rparr>]\<rparr>"

text \<open>The same site in maintenance mode.\<close>

definition maintenance_site :: world where
  "maintenance_site = site\<lparr>get_config := \<lparr>MAINTENANCE_MODE = True\<rparr>\<rparr>"

text \<open>Requests: an unsafe one carrying the token, and an unsafe one of a session.\<close>

definition post_request :: request where
  "post_request = \<lparr>method = ''POST'', auth = Token abc123, user = alice\<rparr>"

definition session_request :: request where
  "session_request = \<lparr>method = ''DELETE'', auth = NotAToken, user = alice\<rparr>"

definition anonymous_request :: request where
  "anonymous_request = \<lparr>method = ''GET'', auth = NotAToken, user = anonymous\<rparr>"

text \<open>Base capability checks that grant everything, and that deny everything.\<close>

definition grant :: "request \<Rightarrow> string \<Rightarrow> exn + bool" where
  "grant req view = Inr True"

definition grant_object :: "request \<Rightarrow> string \<Rightarrow> string \<Rightarrow> exn + bool" where
  "grant_object req view obj = Inr True"

definition deny :: "request \<Rightarrow> string \<Rightarrow> exn + bool" where
  "deny req view = Inr False"

definition deny_object :: "request \<Rightarrow> string \<Rightarrow> string \<Rightarrow> exn + bool" where
  "deny_object req view obj = Inr False"

section \<open>Properties\<close>

subsection \<open>Auxiliary facts\<close>

lemmas auth_defs = update_last_used_def is_expired_def timezone_now_def save_def
  logger_warning_def resolve_user_def populate_user_def Let_def

lemmas site_defs = site_def expired_site_def maintenance_site_def abc123_def alice_def
  directory_alice_def anonymous_def noon_def second_def clock_then_def

lemmas request_defs = post_request_def session_request_def anonymous_request_def
  abc123_def alice_def anonymous_def grant_def grant_object_def deny_def deny_object_def

text \<open>The comparison of line 26, on the count of microseconds.\<close>

lemma total_seconds_gt_6: "total_seconds d > 6 \<longleftrightarrow> d > 6 * second"
  by (simp add: total_seconds_def second_def pos_less_divide_eq)

text \<open>What the refresh of \<open>last_used\<close> leaves alone.\<close>

lemma update_last_used_frame:
  "clock (snd (update_last_used k t w)) = clock w"
  "ticks w \<le> ticks (snd (update_last_used k t w))"
  "django_settings (snd (update_last_used k t w)) = django_settings w"
  "get_config (snd (update_last_used k t w)) = get_config w"
  "ldap_backend_settings (snd (update_last_used k t w)) = ldap_backend_settings w"
  "directory (snd (update_last_used k t w)) = directory w"
  "populate_calls (snd (update_last_used k t w)) = populate_calls w"
  by (simp_all add: auth_defs split: option.splits prod.splits)

lemma update_last_used_token:
  "key (fst (update_last_used k t w)) = key t"
  "token.user (fst (update_last_used k t w)) = token.user t"
  "expires (fst (update_last_used k t w)) = expires t"
  "write_enabled (fst (update_last_used k t w)) = write_enabled t"
  "(fst (update_last_used k t w))\<lparr>last_used := last_used t\<rparr> = t"
  by (simp_all add: auth_defs split: option.splits prod.splits)

text \<open>The four ways through the refresh.\<close>

lemma update_last_used_maintenance:
  "MAINTENANCE_MODE (get_config w) \<Longrightarrow>
   tokens (snd (update_last_used k t w)) = tokens w \<and> fst (update_last_used k t w) = t"
  by (simp add: auth_defs split: option.splits prod.splits)

lemma update_last_used_fresh:
  "last_used t = Some lu \<Longrightarrow> clock w (ticks w) - lu \<le> 6 * second \<Longrightarrow>
   tokens (snd (update_last_used k t w)) = tokens w \<and> fst (update_last_used k t w) = t"
  by (simp add: auth_defs total_seconds_gt_6 split: option.splits prod.splits)

lemma update_last_used_unset:
  "\<not> MAINTENANCE_MODE (get_config w) \<Longrightarrow> last_used t = None \<Longrightarrow>
   tokens (snd (update_last_used k t w)) = (tokens w)(k \<mapsto> t\<lparr>last_used := Some (clock w (ticks w))\<rparr>)"
  by (simp add: auth_defs)

lemma update_last_used_stale:
  "\<not> MAINTENANCE_MODE (get_config w) \<Longrightarrow> last_used t = Some lu \<Longrightarrow>
   6 * second < clock w (ticks w) - lu \<Longrightarrow>
   tokens (snd (update_last_used k t w)) =
     (tokens w)(k \<mapsto> t\<lparr>last_used := Some (clock w (Suc (ticks w)))\<rparr>)"
  by (simp add: auth_defs total_seconds_gt_6)

text \<open>The expiration check and the directory step do not touch the token table.\<close>

lemma is_expired_frame:
  "clock (snd (is_expired t w)) = clock w"
  "ticks w \<le> ticks (snd (is_expired t w))"
  "tokens (snd (is_expired t w)) = tokens w"
  "django_settings (snd (is_expired t w)) = django_settings w"
  "ldap_backend_settings (snd (is_expired t w)) = ldap_backend_settings w"
  "directory (snd (is_expired t w)) = directory w"
  "populate_calls (snd (is_expired t w)) = populate_calls w"
  by (simp_all add: auth_defs split: option.splits prod.splits)

lemma is_expired_past:
  "expires t = Some e \<Longrightarrow> e < clock w (ticks w) \<Longrightarrow> fst (is_expired t w)"
  by (simp add: auth_defs)

lemma resolve_user_tokens: "tokens (snd (resolve_user t w)) = tokens w"
  by (simp add: auth_defs split: option.splits prod.splits)

lemma resolve_user_token: "fst (resolve_user t w) = Inr (u, t') \<Longrightarrow> t' = t"
  by (auto simp: auth_defs split: option.splits prod.splits if_splits)

text \<open>The method, once the key has been found, in terms of its three steps.\<close>

lemma authenticate_credentials_found:
  "tokens w k = Some t0 \<Longrightarrow>
   authenticate_credentials w k =
     (if fst (is_expired (fst (update_last_used k t0 w)) (snd (update_last_used k t0 w)))
      then (Inl (AuthenticationFailed ''Token expired''),
            snd (is_expired (fst (update_last_used k t0 w)) (snd (update_last_used k t0 w))))
      else if \<not> is_active (token.user t0)
      then (Inl (AuthenticationFailed ''User inactive''),
            snd (is_expired (fst (update_last_used k t0 w)) (snd (update_last_used k t0 w))))
      else resolve_user (fst (update_last_used k t0 w))
             (snd (is_expired (fst (update_last_used k t0 w)) (snd (update_last_used k t0 w)))))"
  by (simp add: authenticate_credentials_def update_last_used_token split_beta Let_def)

lemma expired_after_update:
  assumes "expires t0 = Some e" "\<forall>n\<ge>ticks w. e < clock w n"
  shows "fst (is_expired (fst (update_last_used k t0 w)) (snd (update_last_used k t0 w)))"
  using assms
  by (intro is_expired_past[where e=e]) (simp_all add: update_last_used_token update_last_used_frame)

lemma expired_fails:
  assumes "tokens w k = Some t" "expires t = Some e" "\<forall>n\<ge>ticks w. e < clock w n"
  shows "fst (authenticate_credentials w k) = Inl (AuthenticationFailed ''Token expired'')"
    and "tokens (snd (authenticate_credentials w k)) = tokens (snd (update_last_used k t w))"
    and "populate_calls (snd (authenticate_credentials w k)) = populate_calls w"
  using assms
  by (simp_all add: authenticate_credentials_found expired_after_update is_expired_frame
      update_last_used_frame)

text \<open>Runs on the small site.\<close>

lemma site_first_call:
  "authenticate_credentials site ''abc123'' =
     (Inr (directory_alice, abc123\<lparr>last_used := Some noon\<rparr>),
      site\<lparr>tokens := [''abc123'' \<mapsto> abc123\<lparr>last_used := Some noon\<rparr>], ticks := 1,
        populate_calls := [''alice'']\<rparr>)"
  by (simp add: authenticate_credentials_def auth_defs site_defs)

subsection \<open>Expired tokens\<close>

text \<open>
  C1, as stated, fails. Scenario: the token expired one second before the first clock
  reading, has never been used, and maintenance mode is off. The call fails with
  \<open>Token expired\<close>, but the refresh of lines 26 to 34 runs before the expiration check of
  line 37, so the stored \<open>last_used\<close> has gone from unset to \<open>noon\<close>.
\<close>

theorem expired_token_last_used_refreshed:
  "fst (authenticate_credentials expired_site ''abc123'') = Inl (AuthenticationFailed ''Token expired'')
   \<and> map_option last_used (tokens expired_site ''abc123'') = Some None
   \<and> map_option last_used (tokens (snd (authenticate_credentials expired_site ''abc123'')) ''abc123'')
       = Some (Some noon)"
  by (simp add: authenticate_credentials_def auth_defs site_defs)

text \<open>
  C1, amended. For every token whose expiration instant is before every clock reading
  of the call, \<open>authenticate_credentials\<close> fails with \<open>Token expired\<close>. The failing call
  leaves the token table as it was when maintenance mode is on, or when \<open>last_used\<close> is
  set and at most 6 seconds before the reading of line 26. When maintenance mode is off
  and \<open>last_used\<close> is unset, or is set and more than 60 seconds old, the failing call
  has first stored the current time as \<open>last_used\<close>.
\<close>

theorem expired_token_fails_after_refresh:
  assumes "tokens w k = Some t" and "expires t = Some e" and "\<forall>n\<ge>ticks w. e < clock w n"
  shows "fst (authenticate_credentials w k) = Inl (AuthenticationFailed ''Token expired'')
    \<and> (MAINTENANCE_MODE (get_config w)
         \<or> (\<exists>lu. last_used t = Some lu \<and> clock w (ticks w) - lu \<le> 6 * second)
       \<longrightarrow> tokens (snd (authenticate_credentials w k)) = tokens w)
    \<and> (\<not> MAINTENANCE_MODE (get_config w) \<and> last_used t = None
       \<longrightarrow> tokens (snd (authenticate_credentials w k))
             = (tokens w)(k \<mapsto> t\<lparr>last_used := Some (clock w (ticks w))\<rparr>))
    \<and> (\<not> MAINTENANCE_MODE (get_config w)
         \<and> (\<exists>lu. last_used t = Some lu \<and> 60 * second < clock w (ticks w) - lu)
       \<longrightarrow> tokens (snd (authenticate_credentials w k))
             = (tokens w)(k \<mapsto> t\<lparr>last_used := Some (clock w (Suc (ticks w)))\<rparr>))"
proof -
  have stored: "tokens (snd (authenticate_credentials w k)) = tokens (snd (update_last_used k t w))"
    using assms by (rule expired_fails(2))
  have kept: "tokens (snd (update_last_used k t w)) = tokens w"
    if "MAINTENANCE_MODE (get_config w)
        \<or> (\<exists>lu. last_used t = Some lu \<and> clock w (ticks w) - lu \<le> 6 * second)"
    using that update_last_used_maintenance update_last_used_fresh by blast
  have unset: "tokens (snd (update_last_used k t w))
      = (tokens w)(k \<mapsto> t\<lparr>last_used := Some (clock w (ticks w))\<rparr>)"
    if "\<not> MAINTENANCE_MODE (get_config w) \<and> last_used t = None"
    using that by (simp add: update_last_used_unset)
  have stale: "tokens (snd (update_last_used k t w))
      = (tokens w)(k \<mapsto> t\<lparr>last_used := Some (clock w (Suc (ticks w)))\<rparr>)"
    if "\<not> MAINTENANCE_MODE (get_config w)
        \<and> (\<exists>lu. last_used t = Some lu \<and> 60 * second < clock w (ticks w) - lu)"
  proof -
    from that obtain lu where lu: "last_used t = Some lu" "60 * second < clock w (ticks w) - lu"
      by blast
    then have "6 * second < clock w (ticks w) - lu"
      by (simp add: second_def)
    with that lu show ?thesis
      by (simp add: update_last_used_stale)
  qed
  show ?thesis
    using expired_fails(1)[OF assms] stored kept unset stale by simp
qed

theorem expired_token_fails_after_refresh_witness:
  "fst (authenticate_credentials (expired_site\<lparr>get_config := \<lparr>MAINTENANCE_MODE = True\<rparr>\<rparr>) ''abc123'')
     = Inl (AuthenticationFailed ''Token expired'')
   \<and> tokens (snd (authenticate_credentials
        (expired_site\<lparr>get_config := \<lparr>MAINTENANCE_MODE = True\<rparr>\<rparr>) ''abc123''))
     = tokens expired_site
   \<and> map_option last_used (tokens (snd (authenticate_credentials expired_site ''abc123'')) ''abc123'')
     = Some (Some noon)"
proof -
  let ?m = "expired_site\<lparr>get_config := \<lparr>MAINTENANCE_MODE = True\<rparr>\<rparr>"
  let ?t = "abc123\<lparr>expires := Some (noon - second)\<rparr>"
  have past: "\<forall>n\<ge>ticks w. noon - second < clock w n"
    if "clock w = clock_then noon (7 * second)" for w
    using that by (simp add: clock_then_def second_def split: nat.splits)
  have on: "tokens ?m ''abc123'' = Some ?t" "expires ?t = Some (noon - second)"
    "\<forall>n\<ge>ticks ?m. noon - second < clock ?m n"
    using past[of ?m] by (simp_all add: expired_site_def site_def)
  have off: "tokens expired_site ''abc123'' = Some ?t"
    "\<forall>n\<ge>ticks expired_site. noon - second < clock expired_site n"
    using past[of expired_site] by (simp_all add: expired_site_def site_def)
  have mm: "MAINTENANCE_MODE (get_config ?m)" "tokens ?m = tokens expired_site"
    by (simp_all add: expired_site_def site_def)
  have nm: "\<not> MAINTENANCE_MODE (get_config expired_site)" "last_used ?t = None"
    "clock expired_site (ticks expired_site) = noon"
    by (simp_all add: expired_site_def site_def abc123_def clock_then_def)
  have "fst (authenticate_credentials ?m ''abc123'') = Inl (AuthenticationFailed ''Token expired'')
      \<and> tokens (snd (authenticate_credentials ?m ''abc123'')) = tokens expired_site"
    using expired_token_fails_after_refresh[OF on] mm by simp
  moreover have "tokens (snd (authenticate_credentials expired_site ''abc123''))
      = (tokens expired_site)(''abc123'' \<mapsto> ?t\<lparr>last_used := Some noon\<rparr>)"
    using expired_token_fails_after_refresh[OF off(1) on(2) off(2)] nm by simp
  ultimately show ?thesis
    by simp
qed

text \<open>
  C5. For every token whose expiration instant is set and before every clock reading of
  the call, \<open>authenticate_credentials\<close> fails with \<open>Token expired\<close>, whatever the token's
  \<open>write_enabled\<close> flag and whether or not its user is active: the expiration check of
  line 37 comes before the user check of line 40.
\<close>

theorem expiration_checked_before_user_activity:
  assumes "tokens w k = Some t" and "expires t = Some e" and "\<forall>n\<ge>ticks w. e < clock w n"
  shows "fst (authenticate_credentials w k) = Inl (AuthenticationFailed ''Token expired'')"
  using assms by (simp add: authenticate_credentials_found expired_after_update)

theorem expiration_checked_before_user_activity_witness:
  "fst (authenticate_credentials
      (site\<lparr>tokens := [''abc123'' \<mapsto> \<lparr>key = ''abc123'', user = alice\<lparr>is_active := False\<rparr>,
         expires = Some (noon - second), last_used = None, write_enabled = True\<rparr>]\<rparr>) ''abc123'')
     = Inl (AuthenticationFailed ''Token expired'')"
proof -
  let ?t = "\<lparr>key = ''abc123'', user = alice\<lparr>is_active := False\<rparr>,
    expires = Some (noon - second), last_used = None, write_enabled = True\<rparr>"
  let ?w = "site\<lparr>tokens := [''abc123'' \<mapsto> ?t]\<rparr>"
  have "tokens ?w ''abc123'' = Some ?t" and "expires ?t = Some (noon - second)"
    and "\<forall>n\<ge>ticks ?w. noon - second < clock ?w n"
    by (simp_all add: site_def clock_then_def second_def split: nat.splits)
  then show ?thesis
    by (rule expiration_checked_before_user_activity)
qed

subsection \<open>The refresh of \<open>last_used\<close>\<close>

text \<open>
  C2, on the code. The comment of line 25 says the field is updated only once a minute;
  line 26 compares with 6 seconds. On the small site the first call stores \<open>noon\<close>; the
  second call reads the clock seven seconds later and stores again.
\<close>

theorem last_used_refreshed_again_after_seven_seconds:
  "map_option last_used (tokens (snd (authenticate_credentials site ''abc123'')) ''abc123'')
     = Some (Some noon)
   \<and> clock (snd (authenticate_credentials site ''abc123''))
        (ticks (snd (authenticate_credentials site ''abc123''))) = noon + 7 * second
   \<and> map_option last_used
        (tokens (snd (authenticate_credentials (snd (authenticate_credentials site ''abc123''))
           ''abc123'')) ''abc123'')
     = Some (Some (noon + 7 * second))"
  by (simp add: site_first_call) (simp add: authenticate_credentials_def auth_defs site_defs
      total_seconds_def)

text \<open>
  C8. Whenever the stored \<open>last_used\<close> of a token is \<open>lu\<close> and a call for that token reads
  the clock, at line 26, no more than 6 seconds after \<open>lu\<close>, the call leaves the token
  table as it is, in or out of maintenance mode, and a token it returns is the stored
  one.
\<close>

theorem last_used_kept_within_six_seconds:
  assumes "tokens w k = Some t" and "last_used t = Some lu"
    and "clock w (ticks w) - lu \<le> 6 * second"
  shows "tokens (snd (authenticate_credentials w k)) = tokens w
    \<and> (\<forall>u t'. fst (authenticate_credentials w k) = Inr (u, t') \<longrightarrow> t' = t)"
proof -
  have same: "tokens (snd (update_last_used k t w)) = tokens w" "fst (update_last_used k t w) = t"
    using assms(2,3) update_last_used_fresh by blast+
  have "tokens (snd (authenticate_credentials w k)) = tokens w"
    using assms(1) same
    by (simp add: authenticate_credentials_found is_expired_frame resolve_user_tokens)
  moreover have "t' = t" if "fst (authenticate_credentials w k) = Inr (u, t')" for u t'
    using that assms(1) same
    by (auto simp: authenticate_credentials_found split: if_splits dest: resolve_user_token)
  ultimately show ?thesis
    by blast
qed

text \<open>
  The witness is a pair of calls: on a clock whose second reading is exactly 6 seconds
  after the first, the first call stores \<open>noon\<close> and the second leaves it.
\<close>

theorem last_used_kept_within_six_seconds_witness:
  "map_option last_used
     (tokens (snd (authenticate_credentials (site\<lparr>clock := clock_then noon (6 * second)\<rparr>)
        ''abc123'')) ''abc123'') = Some (Some noon)
   \<and> map_option last_used
     (tokens (snd (authenticate_credentials
        (snd (authenticate_credentials (site\<lparr>clock := clock_then noon (6 * second)\<rparr>) ''abc123''))
        ''abc123'')) ''abc123'') = Some (Some noon)"
proof -
  let ?w = "snd (authenticate_credentials (site\<lparr>clock := clock_then noon (6 * second)\<rparr>) ''abc123'')"
  let ?t = "abc123\<lparr>last_used := Some noon\<rparr>"
  have first: "?w = site\<lparr>clock := clock_then noon (6 * second),
      tokens := [''abc123'' \<mapsto> ?t], ticks := 1, populate_calls := [''alice'']\<rparr>"
    by (simp add: authenticate_credentials_def auth_defs site_defs)
  have "tokens ?w ''abc123'' = Some ?t" and "last_used ?t = Some noon"
    and "clock ?w (ticks ?w) - noon \<le> 6 * second"
    unfolding first by (simp_all add: site_def clock_then_def)
  from last_used_kept_within_six_seconds[OF this]
  have "tokens (snd (authenticate_credentials ?w ''abc123'')) = tokens ?w"
    by blast
  then show ?thesis
    by (simp add: first)
qed



subsection \<open>The write gate\<close>

text \<open>
  C3, as stated, fails. For \<open>POST\<close> with a token that is not write-enabled the function
  falls off its end: it hands back \<open>None\<close>, not the boolean \<open>False\<close> that
  \<open>write_enabled\<close> holds.
\<close>

theorem verify_write_permission_returns_None:
  "write_enabled abc123 = False
   \<and> verify_write_permission post_request = Inr PyNone
   \<and> verify_write_permission post_request \<noteq> Inr (PyBool (write_enabled abc123))"
  by (simp add: verify_write_permission_def SAFE_METHODS_def request_defs)

text \<open>
  C3, amended. For every request whose credential is a token: for \<open>GET\<close>, \<open>HEAD\<close> and
  \<open>OPTIONS\<close> the function returns \<open>True\<close> whatever the token's \<open>write_enabled\<close> flag; for
  every other method (\<open>POST\<close>, \<open>PUT\<close>, \<open>PATCH\<close>, \<open>DELETE\<close> among them) it returns \<open>True\<close>
  when the flag is set and \<open>None\<close> when it is not, so that the truth value of what it
  returns is exactly the flag.
\<close>

theorem verify_write_permission_truth_value:
  assumes "auth req = Token t"
  shows "(method req \<in> {''GET'', ''HEAD'', ''OPTIONS''}
           \<longrightarrow> verify_write_permission req = Inr (PyBool True))
    \<and> (method req \<notin> {''GET'', ''HEAD'', ''OPTIONS''}
           \<longrightarrow> verify_write_permission req = Inr (if write_enabled t then PyBool True else PyNone)
             \<and> (\<exists>v. verify_write_permission req = Inr v \<and> truthy v = write_enabled t))
    \<and> {''POST'', ''PUT'', ''PATCH'', ''DELETE''} \<inter> set SAFE_METHODS = {}"
  using assms by (auto simp: verify_write_permission_def SAFE_METHODS_def)

theorem verify_write_permission_truth_value_witness:
  "verify_write_permission post_request = Inr PyNone
   \<and> verify_write_permission (post_request\<lparr>auth := Token (abc123\<lparr>write_enabled := True\<rparr>)\<rparr>)
       = Inr (PyBool True)
   \<and> verify_write_permission (post_request\<lparr>method := ''GET''\<rparr>) = Inr (PyBool True)"
proof -
  let ?on = "abc123\<lparr>write_enabled := True\<rparr>"
  have a: "auth post_request = Token abc123" "method post_request \<notin> {''GET'', ''HEAD'', ''OPTIONS''}"
    "\<not> write_enabled abc123"
    by (simp_all add: post_request_def abc123_def)
  have b: "auth (post_request\<lparr>auth := Token ?on\<rparr>) = Token ?on"
    "method (post_request\<lparr>auth := Token ?on\<rparr>) \<notin> {''GET'', ''HEAD'', ''OPTIONS''}"
    "write_enabled ?on"
    by (simp_all add: post_request_def)
  have c: "auth (post_request\<lparr>method := ''GET''\<rparr>) = Token abc123"
    "method (post_request\<lparr>method := ''GET''\<rparr>) \<in> {''GET'', ''HEAD'', ''OPTIONS''}"
    by (simp_all add: post_request_def)
  show ?thesis
    using verify_write_permission_truth_value[OF a(1)] a(2,3)
      verify_write_permission_truth_value[OF b(1)] b(2,3)
      verify_write_permission_truth_value[OF c(1)] c(2)
    by simp
qed

text \<open>
  C4. For every request whose credential is a token and for which
  \<open>_verify_write_permission\<close> is not true, \<open>has_permission\<close> and \<open>has_object_permission\<close>
  return \<open>False\<close> and the log of base checks is as it was: the base capability check
  has not been invoked.
\<close>

theorem write_gate_denies_without_base_check:
  assumes "isinstance_Token (auth req)" and "verify_write_permission req = Inr v"
    and "\<not> truthy v"
  shows "has_permission base req view calls = (Inr False, calls)
    \<and> has_object_permission base_object req view obj calls = (Inr False, calls)"
  using assms by (simp add: has_permission_def has_object_permission_def)

text \<open>
  Scenario A: the token \<open>abc123\<close> with \<open>write_enabled\<close> false and the method \<open>POST\<close>, in
  front of a base check that would grant the request.
\<close>

theorem write_gate_denies_without_base_check_witness:
  "has_permission grant post_request ''DeviceViewSet'' ([] :: (string, string) base_call list)
     = (Inr False, [])
   \<and> has_object_permission grant_object post_request ''DeviceViewSet'' ''device 1'' []
     = (Inr False, [])"
proof -
  have "isinstance_Token (auth post_request)" and "verify_write_permission post_request = Inr PyNone"
    and "\<not> truthy PyNone"
    by (simp_all add: verify_write_permission_def SAFE_METHODS_def request_defs)
  then show ?thesis
    by (rule write_gate_denies_without_base_check)
qed

text \<open>
  C9. For every request whose credential is not a token, whatever its method,
  \<open>has_permission\<close> and \<open>has_object_permission\<close> return what the base capability check
  returns, and the log shows that check made once, with the request as it came.
\<close>

theorem non_token_credential_delegates_to_base:
  assumes "\<not> isinstance_Token (auth req)"
  shows "has_permission base req view calls
      = (base req view, calls @ [Base_has_permission req view])
    \<and> has_object_permission base_object req view obj calls
      = (base_object req view obj, calls @ [Base_has_object_permission req view obj])"
  using assms
  by (simp add: has_permission_def has_object_permission_def super_has_permission_def
      super_has_object_permission_def)

theorem non_token_credential_delegates_to_base_witness:
  "has_permission grant session_request ''DeviceViewSet'' ([] :: (string, string) base_call list)
     = (Inr True, [Base_has_permission session_request ''DeviceViewSet''])
   \<and> has_object_permission deny_object session_request ''DeviceViewSet'' ''device 1'' []
     = (Inr False, [Base_has_object_permission session_request ''DeviceViewSet'' ''device 1''])"
proof -
  have "\<not> isinstance_Token (auth session_request)"
    by (simp add: session_request_def)
  from non_token_credential_delegates_to_base[OF this, of grant "''DeviceViewSet''" "[]"
      deny_object "''device 1''"]
  show ?thesis
    by (simp add: grant_def deny_object_def)
qed

subsection \<open>Anonymous access\<close>

text \<open>
  C7. \<open>IsAuthenticatedOrLoginNotRequired.has_permission\<close> returns \<open>True\<close> for every request
  when \<open>LOGIN_REQUIRED\<close> is false, and the request's authentication status when it is
  true. It is a function of those two inputs: two calls that agree on both agree on
  the result, whatever else differs in the settings, the request and the view. As a
  function from its arguments to a boolean it has no effect to record.
\<close>

theorem login_not_required_policy:
  "(\<not> LOGIN_REQUIRED s \<longrightarrow> IsAuthenticatedOrLoginNotRequired_has_permission s req view = True)
   \<and> (LOGIN_REQUIRED s \<longrightarrow> IsAuthenticatedOrLoginNotRequired_has_permission s req view
         = is_authenticated (request.user req))
   \<and> (LOGIN_REQUIRED s = LOGIN_REQUIRED s'
       \<and> is_authenticated (request.user req) = is_authenticated (request.user req')
       \<longrightarrow> IsAuthenticatedOrLoginNotRequired_has_permission s req view
         = IsAuthenticatedOrLoginNotRequired_has_permission s' req' view')"
  by (simp add: IsAuthenticatedOrLoginNotRequired_has_permission_def)

text \<open>
  Scenario D, and its two neighbours: login required and the caller anonymous; login
  not required and the caller anonymous; login required and the caller authenticated.
\<close>

theorem login_not_required_policy_witness:
  "IsAuthenticatedOrLoginNotRequired_has_permission (django_settings site) anonymous_request
     ''DeviceViewSet'' = False
   \<and> IsAuthenticatedOrLoginNotRequired_has_permission
       ((django_settings site)\<lparr>LOGIN_REQUIRED := False\<rparr>) anonymous_request ''DeviceViewSet'' = True
   \<and> IsAuthenticatedOrLoginNotRequired_has_permission (django_settings site) session_request
     ''DeviceViewSet'' = True"
proof -
  have s: "LOGIN_REQUIRED (django_settings site)"
    "\<not> LOGIN_REQUIRED ((django_settings site)\<lparr>LOGIN_REQUIRED := False\<rparr>)"
    by (simp_all add: site_def)
  have r: "\<not> is_authenticated (request.user anonymous_request)"
    "is_authenticated (request.user session_request)"
    by (simp_all add: request_defs)
  show ?thesis
    using login_not_required_policy[of "django_settings site" anonymous_request "''DeviceViewSet''"
        "django_settings site" anonymous_request "''DeviceViewSet''"]
      login_not_required_policy[of "(django_settings site)\<lparr>LOGIN_REQUIRED := False\<rparr>"
        anonymous_request "''DeviceViewSet''" "django_settings site" anonymous_request
        "''DeviceViewSet''"]
      login_not_required_policy[of "django_settings site" session_request "''DeviceViewSet''"
        "django_settings site" session_request "''DeviceViewSet''"]
      s r
    by simp
qed

subsection \<open>The directory override\<close>

text \<open>
  C10, as stated, fails. On the small site the override runs and the directory knows
  the account, but the token has never been used and maintenance mode is off: line 33
  sets \<open>last_used\<close> on the very object that line 53 returns. The token of the returned
  pair is not the token as it was found under the key.
\<close>

theorem directory_override_returns_refreshed_token:
  "tokens site ''abc123'' = Some abc123
   \<and> last_used abc123 = None
   \<and> fst (authenticate_credentials site ''abc123'')
       = Inr (directory_alice, abc123\<lparr>last_used := Some noon\<rparr>)
   \<and> fst (authenticate_credentials site ''abc123'') \<noteq> Inr (directory_alice, abc123)"
  by (simp add: site_first_call) (simp add: site_defs)

text \<open>
  C10, amended. Let the key be that of a stored token. If the token's expiration
  instant is before every clock reading of the call, or its user is not active, then
  \<open>authenticate_credentials\<close> fails (with \<open>Token expired\<close> or \<open>User inactive\<close>) and the
  list of \<open>populate_user\<close> calls is as it was: the directory has not been contacted. If
  the call did contact the directory, then the expiration check of line 37 had found
  the token not expired and the user was active, the directory was asked once, for the
  username of the token's user, and when the directory answered a user \<open>u\<close> the call
  returns \<open>u\<close> together with the token as the refresh of lines 26 to 34 left it. That
  token is the row now stored under the key; it equals the token found under the key
  in every field but \<open>last_used\<close>, and in that field too when maintenance mode is on or
  \<open>last_used\<close> was set and at most 6 seconds old. The override itself changes neither
  the token nor the token table.
\<close>

theorem directory_override_after_checks:
  assumes "tokens w k = Some t"
  shows "((\<exists>e. expires t = Some e \<and> (\<forall>n\<ge>ticks w. e < clock w n)) \<or> \<not> is_active (token.user t)
          \<longrightarrow> fst (authenticate_credentials w k) \<in>
                {Inl (AuthenticationFailed ''Token expired''), Inl (AuthenticationFailed ''User inactive'')}
            \<and> populate_calls (snd (authenticate_credentials w k)) = populate_calls w)
    \<and> (populate_calls (snd (authenticate_credentials w k)) \<noteq> populate_calls w
          \<longrightarrow> \<not> fst (is_expired (fst (update_last_used k t w)) (snd (update_last_used k t w)))
            \<and> is_active (token.user t)
            \<and> populate_calls (snd (authenticate_credentials w k))
                = populate_calls w @ [username (token.user t)]
            \<and> (\<forall>u. directory w (username (token.user t)) = Some u
                 \<longrightarrow> fst (authenticate_credentials w k) = Inr (u, fst (update_last_used k t w))
                   \<and> tokens (snd (authenticate_credentials w k)) k = Some (fst (update_last_used k t w))
                   \<and> tokens (snd (authenticate_credentials w k)) = tokens (snd (update_last_used k t w))
                   \<and> (fst (update_last_used k t w))\<lparr>last_used := last_used t\<rparr> = t
                   \<and> (MAINTENANCE_MODE (get_config w)
                        \<or> (\<exists>lu. last_used t = Some lu \<and> clock w (ticks w) - lu \<le> 6 * second)
                      \<longrightarrow> fst (update_last_used k t w) = t)))"
proof -
  let ?t = "fst (update_last_used k t w)"
  let ?w1 = "snd (update_last_used k t w)"
  let ?w2 = "snd (is_expired ?t ?w1)"
  let ?r = "authenticate_credentials w k"
  have frame: "populate_calls ?w2 = populate_calls w" "directory ?w2 = directory w"
    "tokens ?w2 = tokens ?w1"
    by (simp_all add: is_expired_frame update_last_used_frame)
  have stored: "tokens ?w1 k = Some ?t"
    using assms by (simp add: auth_defs split: option.splits prod.splits)
  have early: "fst ?r \<in> {Inl (AuthenticationFailed ''Token expired''),
        Inl (AuthenticationFailed ''User inactive'')}
      \<and> populate_calls (snd ?r) = populate_calls w"
    if "(\<exists>e. expires t = Some e \<and> (\<forall>n\<ge>ticks w. e < clock w n)) \<or> \<not> is_active (token.user t)"
  proof (cases "fst (is_expired ?t ?w1)")
    case True
    with assms frame show ?thesis
      by (simp add: authenticate_credentials_found)
  next
    case False
    with that have "\<not> is_active (token.user t)"
      using expired_after_update by blast
    with False assms frame show ?thesis
      by (simp add: authenticate_credentials_found)
  qed
  have late: "\<not> fst (is_expired ?t ?w1) \<and> is_active (token.user t)
      \<and> populate_calls (snd ?r) = populate_calls w @ [username (token.user t)]
      \<and> (\<forall>u. directory w (username (token.user t)) = Some u
           \<longrightarrow> fst ?r = Inr (u, ?t) \<and> tokens (snd ?r) k = Some ?t \<and> tokens (snd ?r) = tokens ?w1
             \<and> ?t\<lparr>last_used := last_used t\<rparr> = t
             \<and> (MAINTENANCE_MODE (get_config w)
                  \<or> (\<exists>lu. last_used t = Some lu \<and> clock w (ticks w) - lu \<le> 6 * second)
                \<longrightarrow> ?t = t))"
    if contacted: "populate_calls (snd ?r) \<noteq> populate_calls w"
  proof -
    have passed: "\<not> fst (is_expired ?t ?w1)" "is_active (token.user t)"
      using contacted assms frame
      by (auto simp: authenticate_credentials_found split: if_splits)
    then have r: "?r = resolve_user ?t ?w2"
      using assms by (simp add: authenticate_credentials_found)
    have configured: "REMOTE_AUTH_BACKEND (django_settings ?w2) = ''netbox.authentication.LDAPBackend''"
      "FIND_GROUP_PERMS (ldap_backend_settings ?w2)"
      using contacted frame(1) unfolding r
      by (auto simp: resolve_user_def split: if_splits)
    have kept: "?t = t"
      if "MAINTENANCE_MODE (get_config w)
          \<or> (\<exists>lu. last_used t = Some lu \<and> clock w (ticks w) - lu \<le> 6 * second)"
      using that update_last_used_maintenance update_last_used_fresh by blast
    have "populate_calls (snd ?r) = populate_calls w @ [username (token.user t)]
        \<and> (\<forall>u. directory w (username (token.user t)) = Some u
             \<longrightarrow> fst ?r = Inr (u, ?t) \<and> tokens (snd ?r) k = Some ?t \<and> tokens (snd ?r) = tokens ?w1
               \<and> ?t\<lparr>last_used := last_used t\<rparr> = t)"
      unfolding r using configured frame stored
      by (simp add: resolve_user_def populate_user_def update_last_used_token split: option.splits)
    with passed kept show ?thesis
      by blast
  qed
  from early late show ?thesis
    by blast
qed

text \<open>
  The witness, on the small site, where the override is configured and the directory
  knows the account: the call contacts the directory once and returns the directory's
  user with the token, whose \<open>last_used\<close> the refresh has set. In maintenance mode
  the token comes back as it was found. With the expired token the call fails and the
  directory is not contacted.
\<close>

theorem directory_override_after_checks_witness:
  "fst (authenticate_credentials site ''abc123'') = Inr (directory_alice, abc123\<lparr>last_used := Some noon\<rparr>)
   \<and> populate_calls (snd (authenticate_credentials site ''abc123'')) = [''alice'']
   \<and> tokens (snd (authenticate_credentials site ''abc123'')) ''abc123''
       = Some (abc123\<lparr>last_used := Some noon\<rparr>)
   \<and> fst (authenticate_credentials maintenance_site ''abc123'') = Inr (directory_alice, abc123)
   \<and> fst (authenticate_credentials expired_site ''abc123'') = Inl (AuthenticationFailed ''Token expired'')
   \<and> populate_calls (snd (authenticate_credentials expired_site ''abc123'')) = []"
proof -
  let ?x = "abc123\<lparr>expires := Some (noon - second)\<rparr>"
  have found: "tokens site ''abc123'' = Some abc123" "tokens expired_site ''abc123'' = Some ?x"
    by (simp_all add: site_defs)
  have contacted: "populate_calls (snd (authenticate_credentials site ''abc123'')) \<noteq> populate_calls site"
    by (simp add: site_first_call) (simp add: site_def)
  have known: "directory site (username (token.user abc123)) = Some directory_alice"
    "populate_calls site = []" "username (token.user abc123) = ''alice''"
    "fst (update_last_used ''abc123'' abc123 site) = abc123\<lparr>last_used := Some noon\<rparr>"
    by (simp_all add: auth_defs site_defs)
  have past: "\<exists>e. expires ?x = Some e \<and> (\<forall>n\<ge>ticks expired_site. e < clock expired_site n)"
    by (simp add: site_defs split: nat.splits)
  have failed: "fst (authenticate_credentials expired_site ''abc123'')
      \<noteq> Inl (AuthenticationFailed ''User inactive'')"
    "populate_calls expired_site = []"
    by (simp_all add: authenticate_credentials_def auth_defs site_defs)
  have quiet: "tokens maintenance_site ''abc123'' = Some abc123"
    "MAINTENANCE_MODE (get_config maintenance_site)"
    "populate_calls (snd (authenticate_credentials maintenance_site ''abc123''))
       \<noteq> populate_calls maintenance_site"
    "directory maintenance_site (username (token.user abc123)) = Some directory_alice"
    by (simp_all add: authenticate_credentials_def auth_defs site_defs)
  have "fst (authenticate_credentials maintenance_site ''abc123'') = Inr (directory_alice, abc123)"
    using directory_override_after_checks[OF quiet(1)] quiet(2,3,4) by simp
  then show ?thesis
    using directory_override_after_checks[OF found(1)] contacted known
      directory_override_after_checks[OF found(2)] past failed
    by auto
qed

end
